theory Spec2Isabelle
  imports Main "HOL-Library.Word"
begin

section \<open>Strings, numbers and blobs of the host language\<close>

text \<open>
  The program is the React component \<^verbatim>\<open>Home\<close> of \<^verbatim>\<open>src/app/page.tsx\<close>. A JavaScript
  string is a sequence of 16-bit code units, a \<^verbatim>\<open>Blob\<close> is a sequence of bytes with a
  media type; \<^verbatim>\<open>Blob.size\<close> is the number of bytes.
\<close>

type_synonym code_unit = "16 word"
type_synonym jsstring = "code_unit list"
type_synonym byte = "8 word"

definition ascii :: "string \<Rightarrow> jsstring" where
  "ascii cs = map of_char cs"

text \<open>
  \<^verbatim>\<open>String.prototype.split\<close> with a one-character separator: the pieces between the
  occurrences of the separator; the empty string gives one empty piece.
\<close>

fun split_js :: "code_unit \<Rightarrow> jsstring \<Rightarrow> jsstring list" where
  "split_js sep [] = [[]]"
| "split_js sep (c # cs) =
     (if c = sep then [] # split_js sep cs
      else (case split_js sep cs of
              [] \<Rightarrow> [[c]]
            | w # ws \<Rightarrow> (c # w) # ws))"

text \<open>
  \<^verbatim>\<open>String.prototype.trim\<close> removes white space and line terminators from both ends:
  TAB, LF, VT, FF, CR, SP, NBSP, U+1680, U+2000 to U+200A, U+2028, U+2029, U+202F,
  U+205F, U+3000 and U+FEFF.
\<close>

definition is_js_space :: "code_unit \<Rightarrow> bool" where
  "is_js_space c =
     (c = 0x09 \<or> c = 0x0A \<or> c = 0x0B \<or> c = 0x0C \<or> c = 0x0D \<or> c = 0x20 \<or> c = 0xA0
      \<or> c = 0x1680 \<or> (0x2000 \<le> c \<and> c \<le> 0x200A) \<or> c = 0x2028 \<or> c = 0x2029
      \<or> c = 0x202F \<or> c = 0x205F \<or> c = 0x3000 \<or> c = 0xFEFF)"

definition trim :: "jsstring \<Rightarrow> jsstring" where
  "trim s = rev (dropWhile is_js_space (rev (dropWhile is_js_space s)))"

text \<open>
  \<^verbatim>\<open>Number.prototype.toString\<close> on an integer (the value of \<^verbatim>\<open>Date.now()\<close>, whose
  magnitude is far below the 10^21 where the exponent form starts): its decimal digits,
  after a minus sign when it is negative.
\<close>

definition digit :: "nat \<Rightarrow> code_unit" where
  "digit d = of_nat (48 + d)"

function digits :: "nat \<Rightarrow> jsstring" where
  "digits n = (if n < 10 then [digit n] else digits (n div 10) @ [digit (n mod 10)])"
  by pat_completeness auto
termination
  by (relation "measure (\<lambda>n. n)") auto

declare digits.simps [simp del]

definition toString :: "int \<Rightarrow> jsstring" where
  "toString i = (if i < 0 then 0x2D # digits (nat (- i)) else digits (nat i))"

record blob =
  blob_data :: "byte list"
  blob_type :: jsstring

text \<open>
  \<^verbatim>\<open>new Blob(parts, { type })\<close>: the bytes of the parts, one after the other. The type
  is put in lower case, and it is empty when one of its characters is outside U+0020 to
  U+007E.
\<close>

definition asciiLower :: "code_unit \<Rightarrow> code_unit" where
  "asciiLower c = (if 0x41 \<le> c \<and> c \<le> 0x5A then c + 0x20 else c)"

definition blobType :: "jsstring \<Rightarrow> jsstring" where
  "blobType ty =
     (if list_all (\<lambda>c. 0x20 \<le> c \<and> c \<le> 0x7E) ty then map asciiLower ty else [])"

definition newBlob :: "blob list \<Rightarrow> jsstring \<Rightarrow> blob" where
  "newBlob parts ty =
     \<lparr>blob_data = concat (map blob_data parts), blob_type = blobType ty\<rparr>"

text \<open>
  Line 42: \<^verbatim>\<open>mimeType.split(';')[0] || 'audio/webm'\<close>. An index out of range gives
  \<^verbatim>\<open>undefined\<close>; \<^verbatim>\<open>undefined\<close> and the empty string are both falsy.
\<close>

definition cleanMimeType :: "jsstring \<Rightarrow> jsstring" where
  "cleanMimeType mimeType =
     (case split_js 0x3B mimeType of
        [] \<Rightarrow> ascii ''audio/webm''
      | x # _ \<Rightarrow> if x = [] then ascii ''audio/webm'' else x)"

section \<open>The component: React state, refs and the browser around it\<close>

text \<open>
  \<^verbatim>\<open>type Transcription = { id: string; text: string; timestamp: Date }\<close> (lines 11 to 15).
  The timestamp is the clock reading of \<^verbatim>\<open>new Date()\<close>, in milliseconds.
\<close>

record transcription =
  t_id :: jsstring
  t_text :: jsstring
  t_timestamp :: int

text \<open>
  A \<^verbatim>\<open>MediaRecorder\<close> made at line 115, with what the closures of its two handlers
  (lines 119 to 130) hold: the stream it records and the \<^verbatim>\<open>targetLanguage\<close> of the
  \<^verbatim>\<open>startRecording\<close> call. \<^verbatim>\<open>stop()\<close> makes the recorder inactive at once and queues
  its last \<^verbatim>\<open>dataavailable\<close> event and its \<^verbatim>\<open>stop\<close> event.
\<close>

datatype recorder_state = Inactive | Recording

record recorder =
  rec_stream :: nat
  rec_mimeType :: jsstring
  rec_lang :: jsstring
  rec_state :: recorder_state
  rec_stopPending :: bool

text \<open>
  The request of lines 45 to 66: \<^verbatim>\<open>inlineData.data\<close> (a string, or undefined),
  \<^verbatim>\<open>inlineData.mimeType\<close> and the language named in the prompt.
\<close>

record request =
  req_data :: "jsstring option"
  req_mimeType :: jsstring
  req_lang :: jsstring

text \<open>The five \<^verbatim>\<open>console.error\<close> calls of the file, by their line.\<close>

datatype log_entry =
    FailedToCopyToClipboard    \<comment> \<open>line 84\<close>
  | FallbackCopyFailed         \<comment> \<open>lines 95 and 322\<close>
  | ErrorProcessingAudio       \<comment> \<open>line 105\<close>
  | ErrorAccessingMicrophone   \<comment> \<open>line 139\<close>
  | FailedToCopyText           \<comment> \<open>line 311\<close>

text \<open>
  \<^verbatim>\<open>document.execCommand('copy')\<close> returns true, returns false (the copy did not
  happen), or throws.
\<close>

datatype exec_outcome = ExecTrue | ExecFalse | ExecThrows

text \<open>
  \<^verbatim>\<open>navigator.clipboard\<close> is there, or it is undefined (an older browser, a page that
  is not in a secure context); then \<^verbatim>\<open>navigator.clipboard.writeText\<close> throws before any
  call is made, the \<^verbatim>\<open>catch\<close> block runs at once, and its \<^verbatim>\<open>execCommand\<close> has an outcome.
\<close>

datatype clipboard_api = HasClipboard | NoClipboard exec_outcome

text \<open>
  The first ten fields are the \<^verbatim>\<open>useState\<close> and \<^verbatim>\<open>useRef\<close> cells of lines 18 to 28.
  The others are the browser: the \<^verbatim>\<open>getUserMedia\<close> calls that have not settled yet
  (each with the \<^verbatim>\<open>targetLanguage\<close> its \<^verbatim>\<open>startRecording\<close> closure holds), the streams
  handed out (live or stopped), the recorders, the intervals (running or cleared), the
  number of \<^verbatim>\<open>setTimeout\<close> callbacks still to run, the \<^verbatim>\<open>FileReader\<close> loads, the
  \<^verbatim>\<open>generateContent\<close> calls and the \<^verbatim>\<open>clipboard.writeText\<close> calls that have not settled
  (text, entry id, and whether the call is the one of \<^verbatim>\<open>processAudio\<close>), every text ever
  passed to \<^verbatim>\<open>writeText\<close>, every text that was selected in the \<^verbatim>\<open>textarea\<close> of the
  fallback when \<^verbatim>\<open>execCommand('copy')\<close> was called, the clipboard, the children of
  \<^verbatim>\<open>document.body\<close> (nodes by identity), the next node identity, and the console.
\<close>

record state =
  isRecording :: bool
  isProcessing :: bool
  error :: "jsstring option"
  transcriptions :: "transcription list"
  copiedId :: "jsstring option"
  recordingTime :: nat
  targetLanguage :: jsstring
  mediaRecorderRef :: "nat option"
  audioChunksRef :: "blob list"
  timerRef :: "nat option"
  pendingGetUserMedia :: "jsstring list"
  streams :: "bool list"
  recorders :: "recorder list"
  intervals :: "bool list"
  timeouts :: nat
  pendingReaders :: "(blob \<times> jsstring \<times> jsstring) list"
  pendingGenerate :: "request list"
  pendingWriteText :: "(jsstring \<times> jsstring \<times> bool) list"
  writeTextCalls :: "jsstring list"
  execCopyCalls :: "jsstring list"
  clipboard :: "jsstring option"
  body :: "nat list"
  nextNode :: nat
  console :: "log_entry list"

text \<open>The three messages of \<^verbatim>\<open>setError\<close>: lines 140, 100 and 106.\<close>

definition DeviceUnavailable :: jsstring where
  "DeviceUnavailable =
     ascii ''N'' @ [0xE3] @ ascii ''o foi poss'' @ [0xED]
     @ ascii ''vel acessar o microfone. Verifique as permiss'' @ [0xF5]
     @ ascii ''es do navegador.''"

definition EmptyTranscription :: jsstring where
  "EmptyTranscription =
     ascii ''N'' @ [0xE3] @ ascii ''o foi poss'' @ [0xED] @ ascii ''vel transcrever o ''
     @ [0xE1] @ ascii ''udio.''"

definition ServiceFailure :: jsstring where
  "ServiceFailure =
     ascii ''Ocorreu um erro ao processar o '' @ [0xE1] @ ascii ''udio com a IA.''"

definition remove_nth :: "nat \<Rightarrow> 'a list \<Rightarrow> 'a list" where
  "remove_nth i xs = take i xs @ drop (Suc i) xs"

section \<open>The handlers\<close>

text \<open>
  An \<^verbatim>\<open>async\<close> function runs up to its next \<^verbatim>\<open>await\<close> in one piece; what follows the
  \<^verbatim>\<open>await\<close> runs later, when the awaited promise has settled, and other events come in
  between. Each piece is one function here, with the variables of its closure as
  arguments. Handlers read the state of the latest render.

  \<^verbatim>\<open>startRecording\<close>, lines 111 to 142. Up to the \<^verbatim>\<open>await\<close> of line 114:
\<close>

definition startRecording :: "state \<Rightarrow> state" where
  "startRecording s =
     s\<lparr>error := None,
       pendingGetUserMedia := pendingGetUserMedia s @ [targetLanguage s]\<rparr>"

text \<open>Lines 115 to 137, when \<^verbatim>\<open>getUserMedia\<close> has resolved with a new stream.\<close>

definition startRecording_granted :: "jsstring \<Rightarrow> jsstring \<Rightarrow> state \<Rightarrow> state" where
  "startRecording_granted lang mime s =
     s\<lparr>streams := streams s @ [True],
       recorders := recorders s @
         [\<lparr>rec_stream = length (streams s), rec_mimeType = mime, rec_lang = lang,
           rec_state = Recording, rec_stopPending = False\<rparr>],
       mediaRecorderRef := Some (length (recorders s)),
       audioChunksRef := [],
       isRecording := True,
       recordingTime := 0,
       intervals := intervals s @ [True],
       timerRef := Some (length (intervals s))\<rparr>"

text \<open>Lines 138 to 141, when \<^verbatim>\<open>getUserMedia\<close> has rejected.\<close>

definition startRecording_denied :: "state \<Rightarrow> state" where
  "startRecording_denied s =
     s\<lparr>console := console s @ [ErrorAccessingMicrophone],
       error := Some DeviceUnavailable\<rparr>"

text \<open>
  \<^verbatim>\<open>stopRecording\<close>, lines 144 to 152. \<^verbatim>\<open>stop()\<close> on a recorder that is not recording
  throws, and the handler ends there. The ids that \<^verbatim>\<open>setInterval\<close> returns are not
  zero, so a set \<^verbatim>\<open>timerRef\<close> passes the test of line 148.
\<close>

definition stopRecording :: "state \<Rightarrow> state" where
  "stopRecording s =
     (case mediaRecorderRef s of
        None \<Rightarrow> s
      | Some r \<Rightarrow>
          if isRecording s then
            (if r < length (recorders s) \<and> rec_state (recorders s ! r) = Recording then
               (let s1 = s\<lparr>recorders := (recorders s)
                            [r := (recorders s ! r)\<lparr>rec_state := Inactive, rec_stopPending := True\<rparr>],
                          isRecording := False\<rparr>
                in case timerRef s1 of
                     None \<Rightarrow> s1
                   | Some t \<Rightarrow> s1\<lparr>intervals := (intervals s1)[t := False]\<rparr>)
             else s)
          else s)"

text \<open>\<^verbatim>\<open>handleKeyDown\<close>, lines 157 to 171.\<close>

definition handleKeyDown :: "bool \<Rightarrow> bool \<Rightarrow> state \<Rightarrow> state" where
  "handleKeyDown targetIsInput codeIsSpace s =
     (if targetIsInput then s
      else if codeIsSpace then
        (if \<not> isRecording s \<and> \<not> isProcessing s then startRecording s
         else if isRecording s then stopRecording s
         else s)
      else s)"

text \<open>The main button, lines 235 to 237: disabled while processing.\<close>

definition buttonClick :: "state \<Rightarrow> state" where
  "buttonClick s =
     (if isProcessing s then s
      else if isRecording s then stopRecording s
      else startRecording s)"

text \<open>The language buttons, lines 205 to 208: disabled while recording or processing.\<close>

definition selectLanguage :: "jsstring \<Rightarrow> state \<Rightarrow> state" where
  "selectLanguage lang s =
     (if isRecording s \<or> isProcessing s then s else s\<lparr>targetLanguage := lang\<rparr>)"

text \<open>\<^verbatim>\<open>mediaRecorder.ondataavailable\<close>, lines 119 to 123.\<close>

definition ondataavailable :: "blob \<Rightarrow> state \<Rightarrow> state" where
  "ondataavailable d s =
     (if 0 < length (blob_data d) then s\<lparr>audioChunksRef := audioChunksRef s @ [d]\<rparr> else s)"

text \<open>
  \<^verbatim>\<open>processAudio\<close>, lines 30 to 109. Its \<^verbatim>\<open>try\<close> block makes the \<^verbatim>\<open>FileReader\<close>, starts
  the read and installs \<^verbatim>\<open>onloadend\<close>; the \<^verbatim>\<open>catch\<close> of lines 104 to 108 runs when one of
  these three statements throws, and only then.
\<close>

definition processAudio :: "bool \<Rightarrow> blob \<Rightarrow> jsstring \<Rightarrow> jsstring \<Rightarrow> state \<Rightarrow> state" where
  "processAudio readerThrows audioBlob mimeType lang s =
     (let s1 = s\<lparr>isProcessing := True\<rparr>
      in if readerThrows then
           s1\<lparr>console := console s1 @ [ErrorProcessingAudio],
              error := Some ServiceFailure,
              isProcessing := False\<rparr>
         else s1\<lparr>pendingReaders := pendingReaders s1 @ [(audioBlob, mimeType, lang)]\<rparr>)"

text \<open>
  \<^verbatim>\<open>mediaRecorder.onstop\<close>, lines 125 to 130, of recorder \<open>r\<close>. The promise of
  \<^verbatim>\<open>processAudio\<close> resolves as soon as its \<^verbatim>\<open>try\<close> statement is over, so line 129 runs
  before any other event.
\<close>

definition onstop :: "bool \<Rightarrow> nat \<Rightarrow> state \<Rightarrow> state" where
  "onstop readerThrows r s =
     (let mediaRecorder = recorders s ! r;
          audioBlob = newBlob (audioChunksRef s) (rec_mimeType mediaRecorder);
          s1 = processAudio readerThrows audioBlob (rec_mimeType mediaRecorder)
                 (rec_lang mediaRecorder) s
      in s1\<lparr>streams := (streams s1)[rec_stream mediaRecorder := False]\<rparr>)"

text \<open>
  \<^verbatim>\<open>reader.onloadend\<close>, lines 36 to 103, is an \<^verbatim>\<open>async\<close> function that the reader calls
  later, outside the \<^verbatim>\<open>try\<close> statement of \<^verbatim>\<open>processAudio\<close>. \<open>base64data\<close> is
  \<^verbatim>\<open>reader.result\<close>, the data URL that the reader has made of the blob. Up to the
  \<^verbatim>\<open>await\<close> of line 45 the function builds the request; \<^verbatim>\<open>inlineData.data\<close> is the
  second of the pieces of \<open>base64data\<close> between commas (line 39), undefined when there
  is one piece only.
\<close>

definition onloadend :: "jsstring \<Rightarrow> jsstring \<Rightarrow> jsstring \<Rightarrow> state \<Rightarrow> state" where
  "onloadend base64data mimeType lang s =
     (let pieces = split_js 0x2C base64data;
          base64String = (if 1 < length pieces then Some (pieces ! 1) else None)
      in s\<lparr>pendingGenerate := pendingGenerate s @
            [\<lparr>req_data = base64String, req_mimeType = cleanMimeType mimeType,
              req_lang = lang\<rparr>]\<rparr>)"

text \<open>
  When the read has failed, \<^verbatim>\<open>reader.result\<close> is null and line 39 throws inside
  \<^verbatim>\<open>onloadend\<close>; when \<^verbatim>\<open>generateContent\<close> has rejected, the \<^verbatim>\<open>await\<close> of line 45 throws
  there. \<^verbatim>\<open>onloadend\<close> has no \<^verbatim>\<open>try\<close> statement around these lines: its promise rejects,
  nothing handles it, and no later statement of the function runs.
\<close>

definition onloadend_rejected :: "state \<Rightarrow> state" where
  "onloadend_rejected s = s"

text \<open>
  The copy, lines 79 to 98 in \<^verbatim>\<open>processAudio\<close> and lines 306 to 325 in the button of an
  entry; \<open>fromProcessAudio\<close> tells them apart, and only the first one goes on to line 102.
  When \<^verbatim>\<open>writeText\<close> has resolved:
\<close>

definition writeText_resolved :: "jsstring \<Rightarrow> jsstring \<Rightarrow> bool \<Rightarrow> state \<Rightarrow> state" where
  "writeText_resolved txt entryId fromProcessAudio s =
     (let s1 = s\<lparr>clipboard := Some txt, copiedId := Some entryId, timeouts := Suc (timeouts s)\<rparr>
      in if fromProcessAudio then s1\<lparr>isProcessing := False\<rparr> else s1)"

text \<open>
  The \<^verbatim>\<open>catch\<close> block of lines 83 to 98 (310 to 325), with the fallback. It runs when
  \<^verbatim>\<open>writeText\<close> has rejected, and at once when \<^verbatim>\<open>navigator.clipboard\<close> is undefined and
  line 80 (307) throws.
\<close>

definition writeText_rejected ::
  "jsstring \<Rightarrow> jsstring \<Rightarrow> bool \<Rightarrow> exec_outcome \<Rightarrow> state \<Rightarrow> state" where
  "writeText_rejected txt entryId fromProcessAudio exec s =
     (let s1 = s\<lparr>console := console s @
                   [if fromProcessAudio then FailedToCopyToClipboard else FailedToCopyText]\<rparr>;
          textArea = nextNode s1;
          s2 = s1\<lparr>nextNode := Suc (nextNode s1)\<rparr>;
          s3 = s2\<lparr>body := body s2 @ [textArea],
                  execCopyCalls := execCopyCalls s2 @ [txt]\<rparr>;
          s4 = (case exec of
                  ExecThrows \<Rightarrow> s3\<lparr>console := console s3 @ [FallbackCopyFailed]\<rparr>
                | ExecFalse \<Rightarrow> s3\<lparr>copiedId := Some entryId, timeouts := Suc (timeouts s3)\<rparr>
                | ExecTrue \<Rightarrow> s3\<lparr>clipboard := Some txt, copiedId := Some entryId,
                                 timeouts := Suc (timeouts s3)\<rparr>);
          s5 = s4\<lparr>body := remove1 textArea (body s4)\<rparr>
      in if fromProcessAudio then s5\<lparr>isProcessing := False\<rparr> else s5)"

text \<open>
  Lines 68 to 80 and 99 to 102 of \<^verbatim>\<open>onloadend\<close>, when \<^verbatim>\<open>generateContent\<close> has resolved;
  \<open>responseText\<close> is \<^verbatim>\<open>response.text\<close>, which may be undefined, \<open>now\<close> the value of
  \<^verbatim>\<open>Date.now()\<close> and \<open>date\<close> that of \<^verbatim>\<open>new Date()\<close>. With a clipboard the function
  stops at the \<^verbatim>\<open>await\<close> of line 80; without one it goes through the \<^verbatim>\<open>catch\<close> block to
  line 102.
\<close>

definition onloadend_resolved ::
  "jsstring option \<Rightarrow> int \<Rightarrow> int \<Rightarrow> clipboard_api \<Rightarrow> state \<Rightarrow> state" where
  "onloadend_resolved responseText now date api s =
     (let correctedText = (case responseText of None \<Rightarrow> [] | Some t \<Rightarrow> trim t)
      in if correctedText \<noteq> [] then
           (let newTranscription =
                  \<lparr>t_id = toString now, t_text = correctedText, t_timestamp = date\<rparr>;
                s1 = s\<lparr>transcriptions := newTranscription # transcriptions s\<rparr>
            in case api of
                 HasClipboard \<Rightarrow>
                   s1\<lparr>writeTextCalls := writeTextCalls s1 @ [correctedText],
                      pendingWriteText := pendingWriteText s1 @
                        [(correctedText, t_id newTranscription, True)]\<rparr>
               | NoClipboard exec \<Rightarrow>
                   writeText_rejected correctedText (t_id newTranscription) True exec s1)
         else s\<lparr>error := Some EmptyTranscription, isProcessing := False\<rparr>)"

text \<open>The copy button of an entry, lines 305 to 326.\<close>

definition copyClick :: "transcription \<Rightarrow> clipboard_api \<Rightarrow> state \<Rightarrow> state" where
  "copyClick t api s =
     (case api of
        HasClipboard \<Rightarrow>
          s\<lparr>writeTextCalls := writeTextCalls s @ [t_text t],
            pendingWriteText := pendingWriteText s @ [(t_text t, t_id t, False)]\<rparr>
      | NoClipboard exec \<Rightarrow> writeText_rejected (t_text t) (t_id t) False exec s)"

text \<open>The interval of lines 135 to 137 and the timeout of lines 82, 93, 309 and 320.\<close>

definition intervalFired :: "state \<Rightarrow> state" where
  "intervalFired s = s\<lparr>recordingTime := recordingTime s + 1\<rparr>"

definition timeoutFired :: "state \<Rightarrow> state" where
  "timeoutFired s = s\<lparr>copiedId := None\<rparr>"

section \<open>Events\<close>

text \<open>
  What the browser delivers to the component, one event at a time. An event that settles
  a pending call names it by its position among the pending ones; an event that nothing
  is waiting for changes nothing.
\<close>

datatype event =
    KeyDown bool bool
  | ButtonClick
  | SelectLanguage jsstring
  | CopyClick nat clipboard_api
  | GetUserMediaResolved nat jsstring
  | GetUserMediaRejected nat
  | DataAvailable nat blob
  | StopEvent nat bool
  | LoadEnd nat "jsstring option"
  | GenerateResolved nat "jsstring option" int int clipboard_api
  | GenerateRejected nat
  | WriteTextResolved nat
  | WriteTextRejected nat exec_outcome
  | IntervalFired nat
  | TimeoutFired

fun step :: "event \<Rightarrow> state \<Rightarrow> state" where
  "step (KeyDown targetIsInput codeIsSpace) s = handleKeyDown targetIsInput codeIsSpace s"
| "step ButtonClick s = buttonClick s"
| "step (SelectLanguage lang) s = selectLanguage lang s"
| "step (CopyClick k api) s =
     (if k < length (transcriptions s) then copyClick (transcriptions s ! k) api s else s)"
| "step (GetUserMediaResolved i mime) s =
     (if i < length (pendingGetUserMedia s) then
        startRecording_granted (pendingGetUserMedia s ! i) mime
          (s\<lparr>pendingGetUserMedia := remove_nth i (pendingGetUserMedia s)\<rparr>)
      else s)"
| "step (GetUserMediaRejected i) s =
     (if i < length (pendingGetUserMedia s) then
        startRecording_denied (s\<lparr>pendingGetUserMedia := remove_nth i (pendingGetUserMedia s)\<rparr>)
      else s)"
| "step (DataAvailable r d) s =
     (if r < length (recorders s)
         \<and> (rec_state (recorders s ! r) = Recording \<or> rec_stopPending (recorders s ! r))
      then ondataavailable d s else s)"
| "step (StopEvent r readerThrows) s =
     (if r < length (recorders s) \<and> rec_stopPending (recorders s ! r) then
        onstop readerThrows r
          (s\<lparr>recorders := (recorders s)[r := (recorders s ! r)\<lparr>rec_stopPending := False\<rparr>]\<rparr>)
      else s)"
| "step (LoadEnd i result) s =
     (if i < length (pendingReaders s) then
        (case pendingReaders s ! i of
           (audioBlob, mimeType, lang) \<Rightarrow>
             (case result of
                None \<Rightarrow>
                  onloadend_rejected (s\<lparr>pendingReaders := remove_nth i (pendingReaders s)\<rparr>)
              | Some base64data \<Rightarrow>
                  onloadend base64data mimeType lang
                    (s\<lparr>pendingReaders := remove_nth i (pendingReaders s)\<rparr>)))
      else s)"
| "step (GenerateResolved i responseText now date api) s =
     (if i < length (pendingGenerate s) then
        onloadend_resolved responseText now date api
          (s\<lparr>pendingGenerate := remove_nth i (pendingGenerate s)\<rparr>)
      else s)"
| "step (GenerateRejected i) s =
     (if i < length (pendingGenerate s) then
        onloadend_rejected (s\<lparr>pendingGenerate := remove_nth i (pendingGenerate s)\<rparr>)
      else s)"
| "step (WriteTextResolved i) s =
     (if i < length (pendingWriteText s) then
        (case pendingWriteText s ! i of
           (txt, entryId, fromProcessAudio) \<Rightarrow>
             writeText_resolved txt entryId fromProcessAudio
               (s\<lparr>pendingWriteText := remove_nth i (pendingWriteText s)\<rparr>))
      else s)"
| "step (WriteTextRejected i exec) s =
     (if i < length (pendingWriteText s) then
        (case pendingWriteText s ! i of
           (txt, entryId, fromProcessAudio) \<Rightarrow>
             writeText_rejected txt entryId fromProcessAudio exec
               (s\<lparr>pendingWriteText := remove_nth i (pendingWriteText s)\<rparr>))
      else s)"
| "step (IntervalFired t) s =
     (if t < length (intervals s) \<and> intervals s ! t then intervalFired s else s)"
| "step TimeoutFired s =
     (if 0 < timeouts s then timeoutFired (s\<lparr>timeouts := timeouts s - 1\<rparr>) else s)"

fun run :: "event list \<Rightarrow> state \<Rightarrow> state" where
  "run [] s = s"
| "run (e # es) s = run es (step e s)"

text \<open>The component as it mounts (lines 18 to 28), in a browser where nothing is pending.\<close>

definition init :: state where
  "init =
     \<lparr>isRecording = False, isProcessing = False, error = None, transcriptions = [],
      copiedId = None, recordingTime = 0,
      targetLanguage = ascii ''Portugu'' @ [0xEA] @ ascii ''s'',
      mediaRecorderRef = None, audioChunksRef = [], timerRef = None,
      pendingGetUserMedia = [], streams = [], recorders = [], intervals = [],
      timeouts = 0, pendingReaders = [], pendingGenerate = [], pendingWriteText = [],
      writeTextCalls = [], execCopyCalls = [], clipboard = None, body = [], nextNode = 0,
      console = []\<rparr>"

text \<open>
  The sessions in flight: the recorders that record or whose \<^verbatim>\<open>stop\<close> event is still to
  come, and the payloads on their way through the reader, the service and the copy of
  \<^verbatim>\<open>processAudio\<close>.
\<close>

definition sessionsInFlight :: "state \<Rightarrow> nat" where
  "sessionsInFlight s =
     length (filter (\<lambda>r. rec_state r = Recording \<or> rec_stopPending r) (recorders s))
     + length (pendingReaders s) + length (pendingGenerate s)
     + length (filter (\<lambda>(txt, entryId, fromProcessAudio). fromProcessAudio) (pendingWriteText s))"

text \<open>The chunks \<open>ds\<close> delivered to \<^verbatim>\<open>ondataavailable\<close>, one after the other.\<close>

fun deliver :: "blob list \<Rightarrow> state \<Rightarrow> state" where
  "deliver [] s = s"
| "deliver (d # ds) s = deliver ds (ondataavailable d s)"

section \<open>Runs used below\<close>

text \<open>
  Two presses of the space bar before the permission prompt is answered, and then the
  two answers.
\<close>

definition doubleStart :: "event list" where
  "doubleStart =
     [KeyDown False True, KeyDown False True,
      GetUserMediaResolved 0 (ascii ''audio/webm''),
      GetUserMediaResolved 0 (ascii ''audio/webm'')]"

text \<open>
  Two presses of the space bar while the permission prompt is open. The first request
  is granted and recorder 0 records; a third press stops it; the second request is
  granted and recorder 1 records, before the \<^verbatim>\<open>dataavailable\<close> and \<^verbatim>\<open>stop\<close> events of
  recorder 0 arrive with its one chunk, the byte 10. A fourth press stops recorder 1,
  whose one chunk is the byte 20.
\<close>

definition overlappingSessions :: "event list" where
  "overlappingSessions =
     [KeyDown False True, KeyDown False True,
      GetUserMediaResolved 0 (ascii ''audio/webm''),
      KeyDown False True,
      GetUserMediaResolved 0 (ascii ''audio/webm''),
      DataAvailable 0 \<lparr>blob_data = [10], blob_type = ascii ''audio/webm''\<rparr>,
      StopEvent 0 False,
      KeyDown False True,
      DataAvailable 1 \<lparr>blob_data = [20], blob_type = ascii ''audio/webm''\<rparr>,
      StopEvent 1 False]"


text \<open>One recording, whose \<^verbatim>\<open>generateContent\<close> call rejects.\<close>

definition serviceRejected :: "event list" where
  "serviceRejected =
     [KeyDown False True, GetUserMediaResolved 0 (ascii ''audio/webm;codecs=opus''),
      DataAvailable 0 \<lparr>blob_data = [1, 2], blob_type = ascii ''audio/webm;codecs=opus''\<rparr>,
      KeyDown False True, StopEvent 0 False,
      LoadEnd 0 (Some (ascii ''data:audio/webm;codecs=opus;base64,AQI='')),
      GenerateRejected 0]"

text \<open>
  A page with no entry and no error that shows the spinner while nothing is pending and
  no recorder is active.
\<close>

definition stuck :: "state \<Rightarrow> bool" where
  "stuck s =
     (isProcessing s \<and> \<not> isRecording s \<and> error s = None \<and> transcriptions s = []
      \<and> pendingGetUserMedia s = []
      \<and> list_all (\<lambda>r. rec_state r = Inactive \<and> \<not> rec_stopPending r) (recorders s)
      \<and> pendingReaders s = [] \<and> pendingGenerate s = [] \<and> pendingWriteText s = [])"

text \<open>
  Two recordings, one after the other, whose transcriptions are \<^verbatim>\<open>a\<close> and \<^verbatim>\<open>b\<close>; the
  clock reads \<open>now1\<close> when the first entry is made and \<open>now2\<close> when the second is.
\<close>

definition twoSessions :: "int \<Rightarrow> int \<Rightarrow> event list" where
  "twoSessions now1 now2 =
     [KeyDown False True, GetUserMediaResolved 0 (ascii ''audio/webm''), KeyDown False True,
      StopEvent 0 False, LoadEnd 0 (Some (ascii ''data:audio/webm;base64,'')),
      GenerateResolved 0 (Some (ascii ''a'')) now1 now1 HasClipboard,
      WriteTextResolved 0,
      KeyDown False True, GetUserMediaResolved 0 (ascii ''audio/webm''), KeyDown False True,
      StopEvent 1 False, LoadEnd 0 (Some (ascii ''data:audio/webm;base64,'')),
      GenerateResolved 0 (Some (ascii ''b'')) now2 now2 HasClipboard]"

text \<open>The values of \<^verbatim>\<open>Date.now()\<close> that the events of a run bring with them.\<close>

fun clockOf :: "event \<Rightarrow> int list" where
  "clockOf (GenerateResolved i responseText now date api) = [now]"
| "clockOf e = []"

definition clockReadings :: "event list \<Rightarrow> int list" where
  "clockReadings es = concat (map clockOf es)"

section \<open>Unfolding the handlers\<close>

lemmas handler_defs =
  handleKeyDown_def buttonClick_def selectLanguage_def startRecording_def
  startRecording_granted_def startRecording_denied_def stopRecording_def
  ondataavailable_def onstop_def processAudio_def onloadend_def onloadend_resolved_def
  onloadend_rejected_def writeText_resolved_def writeText_rejected_def copyClick_def
  intervalFired_def timeoutFired_def remove_nth_def newBlob_def Let_def

lemma remove_nth_last: "remove_nth (length xs) (xs @ [x]) = xs"
  by (simp add: remove_nth_def)

lemma run_append: "run (es @ fs) s = run fs (run es s)"
  by (induction es arbitrary: s) simp_all

section \<open>The media type sent to the service\<close>

lemma split_js_first:
  "split_js sep s = takeWhile (\<lambda>c. c \<noteq> sep) s # tl (split_js sep s)"
  by (induction s) (auto split: list.splits)

lemma cleanMimeType_takeWhile:
  "cleanMimeType mimeType =
     (if takeWhile (\<lambda>c. c \<noteq> 0x3B) mimeType = [] then ascii ''audio/webm''
      else takeWhile (\<lambda>c. c \<noteq> 0x3B) mimeType)"
  unfolding cleanMimeType_def by (subst split_js_first) simp

text \<open>
  C7. The media type of the request that \<^verbatim>\<open>onloadend\<close> sends is the recorder's media type
  up to its first semicolon (code unit 0x3B), and \<^verbatim>\<open>audio/webm\<close> when that is empty.
\<close>

theorem request_media_type_is_base_type:
  "req_mimeType (last (pendingGenerate (onloadend base64data mimeType lang s)))
     = (if takeWhile (\<lambda>c. c \<noteq> 0x3B) mimeType = [] then ascii ''audio/webm''
        else takeWhile (\<lambda>c. c \<noteq> 0x3B) mimeType)"
  by (simp add: onloadend_def Let_def cleanMimeType_takeWhile)

section \<open>The payload of a recording\<close>

lemma deliver_eq:
  "deliver ds s
     = s\<lparr>audioChunksRef := audioChunksRef s @ filter (\<lambda>d. blob_data d \<noteq> []) ds\<rparr>"
  by (induction ds arbitrary: s) (simp_all add: ondataavailable_def)

lemma concat_data_nonempty:
  "concat (map blob_data (filter (\<lambda>d. blob_data d \<noteq> []) ds)) = concat (map blob_data ds)"
  by (induction ds) simp_all

lemma run_deliveries:
  "r < length (recorders s) \<Longrightarrow>
   rec_state (recorders s ! r) = Recording \<or> rec_stopPending (recorders s ! r) \<Longrightarrow>
   run (map (DataAvailable r) ds) s = deliver ds s"
  by (induction ds arbitrary: s) (simp_all add: ondataavailable_def)

text \<open>
  A session that has the chunk list to itself: a request is granted, the new recorder
  delivers the chunks \<open>ds\<close>, the space bar stops it, it delivers the chunks \<open>ds'\<close> and
  its \<^verbatim>\<open>stop\<close> event arrives, with no other event in between. The payload that \<^verbatim>\<open>onstop\<close>
  hands to \<^verbatim>\<open>processAudio\<close> is the concatenation of the delivered chunks, in the order of
  delivery.
\<close>

lemma lone_session_payload:
  assumes "i < length (pendingGetUserMedia s)"
  shows "pendingReaders
           (run (GetUserMediaResolved i mime
                 # map (DataAvailable (length (recorders s))) ds
                 @ KeyDown False True
                 # map (DataAvailable (length (recorders s))) ds'
                 @ [StopEvent (length (recorders s)) False]) s)
         = pendingReaders s
           @ [(\<lparr>blob_data = concat (map blob_data (ds @ ds')), blob_type = blobType mime\<rparr>,
               mime, pendingGetUserMedia s ! i)]"
proof -
  define r where "r = length (recorders s)"
  define s1 where "s1 = step (GetUserMediaResolved i mime) s"
  define s2 where "s2 = run (map (DataAvailable r) ds) s1"
  define s3 where "s3 = step (KeyDown False True) s2"
  define s4 where "s4 = run (map (DataAvailable r) ds') s3"
  have s1: "s1 = startRecording_granted (pendingGetUserMedia s ! i) mime
                   (s\<lparr>pendingGetUserMedia := remove_nth i (pendingGetUserMedia s)\<rparr>)"
    using assms by (simp add: s1_def)
  have s2: "s2 = s1\<lparr>audioChunksRef := filter (\<lambda>d. blob_data d \<noteq> []) ds\<rparr>"
    unfolding s2_def
    by (subst run_deliveries) (simp_all add: s1 r_def startRecording_granted_def deliver_eq)
  have s3: "s3 = stopRecording s2"
    by (simp add: s3_def handleKeyDown_def s2 s1 startRecording_granted_def)
  have rec3: "recorders s3
                = recorders s @ [\<lparr>rec_stream = length (streams s), rec_mimeType = mime,
                    rec_lang = pendingGetUserMedia s ! i, rec_state = Inactive,
                    rec_stopPending = True\<rparr>]"
    and chunks3: "audioChunksRef s3 = filter (\<lambda>d. blob_data d \<noteq> []) ds"
    and readers3: "pendingReaders s3 = pendingReaders s"
    by (simp_all add: s3 s2 s1 stopRecording_def startRecording_granted_def Let_def
        split: option.splits)
  have s4: "s4 = s3\<lparr>audioChunksRef := audioChunksRef s3 @ filter (\<lambda>d. blob_data d \<noteq> []) ds'\<rparr>"
    unfolding s4_def
    by (subst run_deliveries) (simp_all add: rec3 r_def deliver_eq)
  have "pendingReaders (step (StopEvent r False) s4)
          = pendingReaders s
            @ [(\<lparr>blob_data = concat (map blob_data (ds @ ds')), blob_type = blobType mime\<rparr>,
                mime, pendingGetUserMedia s ! i)]"
    by (simp add: s4 rec3 chunks3 readers3 r_def onstop_def processAudio_def newBlob_def
        Let_def concat_data_nonempty)
  then show ?thesis
    by (simp add: run_append s1_def s2_def s3_def s4_def r_def)
qed

lemma stopRecording_chunks: "audioChunksRef (stopRecording s) = audioChunksRef s"
  by (simp add: stopRecording_def Let_def split: option.splits)

lemma writeText_rejected_chunks:
  "audioChunksRef (writeText_rejected txt entryId fromProcessAudio exec s) = audioChunksRef s"
  by (cases exec) (simp_all add: writeText_rejected_def Let_def)

lemma step_chunks_nonempty:
  assumes "list_all (\<lambda>d. blob_data d \<noteq> []) (audioChunksRef s)"
  shows "list_all (\<lambda>d. blob_data d \<noteq> []) (audioChunksRef (step e s))"
proof (cases e)
  case (KeyDown targetIsInput codeIsSpace)
  with assms show ?thesis
    by (simp add: handleKeyDown_def startRecording_def stopRecording_chunks)
next
  case ButtonClick
  with assms show ?thesis
    by (simp add: buttonClick_def startRecording_def stopRecording_chunks)
next
  case (SelectLanguage lang)
  with assms show ?thesis by (simp add: selectLanguage_def)
next
  case (CopyClick k api)
  with assms show ?thesis
    by (simp add: copyClick_def writeText_rejected_chunks split: clipboard_api.splits)
next
  case (GetUserMediaResolved i mime)
  with assms show ?thesis by (simp add: startRecording_granted_def)
next
  case (GetUserMediaRejected i)
  with assms show ?thesis by (simp add: startRecording_denied_def)
next
  case (DataAvailable r d)
  with assms show ?thesis by (simp add: ondataavailable_def)
next
  case (StopEvent r readerThrows)
  with assms show ?thesis by (simp add: onstop_def processAudio_def Let_def)
next
  case (LoadEnd i result)
  with assms show ?thesis
    by (simp add: onloadend_def onloadend_rejected_def Let_def split: prod.splits option.splits)
next
  case (GenerateResolved i responseText now date api)
  with assms show ?thesis
    by (simp add: onloadend_resolved_def Let_def writeText_rejected_chunks
        split: clipboard_api.splits)
next
  case (GenerateRejected i)
  with assms show ?thesis by (simp add: onloadend_rejected_def)
next
  case (WriteTextResolved i)
  with assms show ?thesis by (simp add: writeText_resolved_def Let_def split: prod.splits)
next
  case (WriteTextRejected i exec)
  with assms show ?thesis by (simp add: writeText_rejected_chunks split: prod.splits)
next
  case (IntervalFired t)
  with assms show ?thesis by (simp add: intervalFired_def)
next
  case TimeoutFired
  with assms show ?thesis by (simp add: timeoutFired_def)
qed

text \<open>In every run, no chunk of the chunk list is empty (line 120).\<close>

lemma no_empty_chunk_accumulated:
  "list_all (\<lambda>d. blob_data d \<noteq> []) (audioChunksRef s) \<Longrightarrow>
   list_all (\<lambda>d. blob_data d \<noteq> []) (audioChunksRef (run es s))"
  by (induction es arbitrary: s) (simp_all add: step_chunks_nonempty)

text \<open>
  C5. The chunk list is one ref (line 27) that every recorder's handlers share. In the
  run \<open>overlappingSessions\<close> recorder 0 delivers the byte 10 and recorder 1 the byte 20:
  the payload of the first session is the byte 10, and the payload of the second session
  is the bytes 10 and 20, not the one chunk that was delivered during it.
\<close>

theorem overlapping_sessions_mix_chunks:
  "map (\<lambda>(audioBlob, mimeType, lang). blob_data audioBlob)
     (pendingReaders (run overlappingSessions init)) = [[10], [10, 20]]"
  by (simp add: overlappingSessions_def init_def handler_defs)


section \<open>The copy to the clipboard\<close>

text \<open>
  C8. When \<^verbatim>\<open>writeText\<close> has rejected, the error message of the page is what it was,
  whatever \<^verbatim>\<open>execCommand\<close> does, in \<^verbatim>\<open>processAudio\<close> and in the copy button; when
  \<^verbatim>\<open>execCommand\<close> throws too, the two failures are written to the console.
\<close>

theorem clipboard_failure_silent:
  "error (writeText_rejected txt entryId fromProcessAudio exec s) = error s
   \<and> console (writeText_rejected txt entryId True ExecThrows s)
       = console s @ [FailedToCopyToClipboard, FallbackCopyFailed]
   \<and> console (writeText_rejected txt entryId False ExecThrows s)
       = console s @ [FailedToCopyText, FallbackCopyFailed]"
  by (cases exec) (simp_all add: writeText_rejected_def Let_def)

text \<open>
  C9. The fallback appends a new \<^verbatim>\<open>textarea\<close> to \<^verbatim>\<open>document.body\<close> and removes it again:
  the children of the body are afterwards what they were, whatever \<^verbatim>\<open>execCommand\<close> does.
  The node that \<^verbatim>\<open>createElement\<close> returns is new, so it is not in the document before.
\<close>

theorem fallback_element_removed:
  "nextNode s \<notin> set (body s) \<Longrightarrow>
   body (writeText_rejected txt entryId fromProcessAudio exec s) = body s"
  by (cases exec) (simp_all add: writeText_rejected_def Let_def remove1_append)

theorem fallback_element_removed_witness:
  "nextNode (init\<lparr>body := [0, 1], nextNode := 2\<rparr>)
     \<notin> set (body (init\<lparr>body := [0, 1], nextNode := 2\<rparr>))
   \<and> body (writeText_rejected (ascii ''Hi'') (ascii ''1000'') True ExecThrows
             (init\<lparr>body := [0, 1], nextNode := 2\<rparr>)) = [0, 1]"
  using fallback_element_removed
    [of "init\<lparr>body := [0, 1], nextNode := 2\<rparr>" "ascii ''Hi''" "ascii ''1000''" True ExecThrows]
  by (simp add: init_def)

text \<open>
  The hypothesis of the last theorem holds wherever the component can get to: in a
  document whose nodes were all created before, no event changes the children of the
  body, and the next node is not among them.
\<close>

lemma stopRecording_document:
  "body (stopRecording s) = body s \<and> nextNode (stopRecording s) = nextNode s"
  by (simp add: stopRecording_def Let_def split: option.splits)

lemma writeText_rejected_document:
  "nextNode s \<notin> set (body s) \<Longrightarrow>
   body (writeText_rejected txt entryId fromProcessAudio exec s) = body s
   \<and> nextNode (writeText_rejected txt entryId fromProcessAudio exec s) = Suc (nextNode s)"
  by (cases exec) (simp_all add: writeText_rejected_def Let_def remove1_append)

lemma step_document:
  assumes "list_all (\<lambda>n. n < nextNode s) (body s)"
  shows "body (step e s) = body s \<and> nextNode s \<le> nextNode (step e s)"
proof -
  from assms have fresh: "nextNode s \<notin> set (body s)"
    by (auto simp: list_all_iff)
  show ?thesis
  proof (cases e)
    case (KeyDown targetIsInput codeIsSpace)
    then show ?thesis
      by (simp add: handleKeyDown_def startRecording_def stopRecording_document)
  next
    case ButtonClick
    then show ?thesis
      by (simp add: buttonClick_def startRecording_def stopRecording_document)
  next
    case (SelectLanguage lang)
    then show ?thesis by (simp add: selectLanguage_def)
  next
    case (CopyClick k api)
    with fresh show ?thesis
      by (simp add: copyClick_def writeText_rejected_document split: clipboard_api.splits)
  next
    case (GetUserMediaResolved i mime)
    then show ?thesis by (simp add: startRecording_granted_def)
  next
    case (GetUserMediaRejected i)
    then show ?thesis by (simp add: startRecording_denied_def)
  next
    case (DataAvailable r d)
    then show ?thesis by (simp add: ondataavailable_def)
  next
    case (StopEvent r readerThrows)
    then show ?thesis by (simp add: onstop_def processAudio_def Let_def)
  next
    case (LoadEnd i result)
    then show ?thesis
      by (simp add: onloadend_def onloadend_rejected_def Let_def
          split: prod.splits option.splits)
  next
    case (GenerateResolved i responseText now date api)
    with fresh show ?thesis
      by (simp add: onloadend_resolved_def Let_def writeText_rejected_document
          split: clipboard_api.splits)
  next
    case (GenerateRejected i)
    then show ?thesis by (simp add: onloadend_rejected_def)
  next
    case (WriteTextResolved i)
    then show ?thesis by (simp add: writeText_resolved_def Let_def split: prod.splits)
  next
    case (WriteTextRejected i exec)
    with fresh show ?thesis by (simp add: writeText_rejected_document split: prod.splits)
  next
    case (IntervalFired t)
    then show ?thesis by (simp add: intervalFired_def)
  next
    case TimeoutFired
    then show ?thesis by (simp add: timeoutFired_def)
  qed
qed

lemma run_document:
  "list_all (\<lambda>n. n < nextNode s) (body s) \<Longrightarrow>
   body (run es s) = body s \<and> nextNode s \<le> nextNode (run es s)"
proof (induction es arbitrary: s)
  case Nil
  then show ?case by simp
next
  case (Cons e es)
  from step_document [OF Cons.prems, of e]
  have b: "body (step e s) = body s" and n: "nextNode s \<le> nextNode (step e s)"
    by simp_all
  from Cons.prems b n have "list_all (\<lambda>n. n < nextNode (step e s)) (body (step e s))"
    by (auto simp: list_all_iff)
  from Cons.IH [OF this] b n show ?case by simp
qed

lemma created_node_is_new:
  "list_all (\<lambda>n. n < nextNode s) (body s) \<Longrightarrow>
   nextNode (run es s) \<notin> set (body (run es s))"
  using run_document [of s es] by (auto simp: list_all_iff)

section \<open>Starting a recording\<close>

lemma stopRecording_starts_nothing:
  "pendingGetUserMedia (stopRecording s) = pendingGetUserMedia s
   \<and> streams (stopRecording s) = streams s
   \<and> length (recorders (stopRecording s)) = length (recorders s)"
  by (simp add: stopRecording_def Let_def split: option.splits)

text \<open>
  While the page shows a recording or the spinner, the space bar and the button start
  nothing: no \<^verbatim>\<open>getUserMedia\<close> call is made, no stream and no recorder is added.
\<close>

lemma start_ignored_while_busy:
  "isRecording s \<or> isProcessing s \<Longrightarrow>
   e = KeyDown targetIsInput codeIsSpace \<or> e = ButtonClick \<Longrightarrow>
   pendingGetUserMedia (step e s) = pendingGetUserMedia s
   \<and> streams (step e s) = streams s
   \<and> length (recorders (step e s)) = length (recorders s)"
  by (auto simp: handleKeyDown_def buttonClick_def stopRecording_starts_nothing)

text \<open>
  C1. \<^verbatim>\<open>isRecording\<close> becomes true at line 133 only, after the \<^verbatim>\<open>await\<close> of line 114, so
  the guard of line 165 lets a second press of the space bar through while the first
  \<^verbatim>\<open>getUserMedia\<close> call is pending. After the run \<open>doubleStart\<close> two sessions are in
  flight, on two live streams and two recorders that record; when the recording is then
  stopped, only the second stream is released.
\<close>

theorem double_start_two_sessions:
  "sessionsInFlight (run doubleStart init) = 2
   \<and> streams (run doubleStart init) = [True, True]
   \<and> map rec_state (recorders (run doubleStart init)) = [Recording, Recording]
   \<and> streams (run (doubleStart @ [KeyDown False True, StopEvent 1 False]) init)
       = [True, False]"
  by (simp add: doubleStart_def init_def handler_defs sessionsInFlight_def)

text \<open>
  C4. A start command (space bar or button) is issued while the page neither records nor
  processes, and \<^verbatim>\<open>getUserMedia\<close> rejects: \<^verbatim>\<open>isRecording\<close> and \<^verbatim>\<open>isProcessing\<close> are false
  after the command and after the rejection, the error message is the one of line 140,
  and the recorders, the streams, the intervals, the two refs and the sessions in flight
  are what they were.
\<close>

theorem permission_denied_stays_idle:
  assumes "\<not> isRecording s" and "\<not> isProcessing s"
  shows "handleKeyDown False True s = startRecording s
       \<and> buttonClick s = startRecording s
       \<and> \<not> isRecording (startRecording s)
       \<and> \<not> isProcessing (startRecording s)
       \<and> \<not> isRecording (step (GetUserMediaRejected (length (pendingGetUserMedia s))) (startRecording s))
       \<and> \<not> isProcessing (step (GetUserMediaRejected (length (pendingGetUserMedia s))) (startRecording s))
       \<and> error (step (GetUserMediaRejected (length (pendingGetUserMedia s))) (startRecording s))
           = Some DeviceUnavailable
       \<and> recorders (step (GetUserMediaRejected (length (pendingGetUserMedia s))) (startRecording s))
           = recorders s
       \<and> streams (step (GetUserMediaRejected (length (pendingGetUserMedia s))) (startRecording s))
           = streams s
       \<and> intervals (step (GetUserMediaRejected (length (pendingGetUserMedia s))) (startRecording s))
           = intervals s
       \<and> timerRef (step (GetUserMediaRejected (length (pendingGetUserMedia s))) (startRecording s))
           = timerRef s
       \<and> mediaRecorderRef (step (GetUserMediaRejected (length (pendingGetUserMedia s))) (startRecording s))
           = mediaRecorderRef s
       \<and> sessionsInFlight (step (GetUserMediaRejected (length (pendingGetUserMedia s))) (startRecording s))
           = sessionsInFlight s"
  using assms
  by (simp add: handleKeyDown_def buttonClick_def startRecording_def startRecording_denied_def
      sessionsInFlight_def remove_nth_last)

theorem permission_denied_stays_idle_witness:
  "\<not> isRecording init \<and> \<not> isProcessing init
   \<and> error (step (GetUserMediaRejected 0) (handleKeyDown False True init)) = Some DeviceUnavailable
   \<and> \<not> isRecording (step (GetUserMediaRejected 0) (handleKeyDown False True init))
   \<and> recorders (step (GetUserMediaRejected 0) (handleKeyDown False True init)) = []"
  using permission_denied_stays_idle [of init]
  by (simp add: init_def)

section \<open>The result of the transcription\<close>

text \<open>
  When the service resolves with no text, or with white space only, the page leaves the
  spinner, shows the message of line 100 and keeps its history.
\<close>

lemma empty_transcription_returns_idle:
  "responseText = None \<or> (\<exists>T. responseText = Some T \<and> trim T = []) \<Longrightarrow>
   \<not> isProcessing (onloadend_resolved responseText now date api s)
   \<and> error (onloadend_resolved responseText now date api s) = Some EmptyTranscription
   \<and> transcriptions (onloadend_resolved responseText now date api s) = transcriptions s"
  by (auto simp: onloadend_resolved_def)

text \<open>
  The message of line 106 is set when the \<^verbatim>\<open>FileReader\<close> statements of lines 34 to 36
  throw, which is the only failure the \<^verbatim>\<open>catch\<close> of \<^verbatim>\<open>processAudio\<close> sees.
\<close>

lemma reader_failure_returns_idle:
  "\<not> isProcessing (processAudio True audioBlob mimeType lang s)
   \<and> error (processAudio True audioBlob mimeType lang s) = Some ServiceFailure
   \<and> transcriptions (processAudio True audioBlob mimeType lang s) = transcriptions s"
  by (simp add: processAudio_def)

lemma stuck_step: "stuck s \<Longrightarrow> stuck (step e s)"
proof (cases e)
  case (KeyDown targetIsInput codeIsSpace)
  then show "stuck s \<Longrightarrow> ?thesis"
    by (simp add: stuck_def handleKeyDown_def)
next
  case ButtonClick
  then show "stuck s \<Longrightarrow> ?thesis" by (simp add: stuck_def buttonClick_def)
next
  case (SelectLanguage lang)
  then show "stuck s \<Longrightarrow> ?thesis" by (simp add: stuck_def selectLanguage_def)
next
  case (CopyClick k api)
  then show "stuck s \<Longrightarrow> ?thesis" by (simp add: stuck_def)
next
  case (GetUserMediaResolved i mime)
  then show "stuck s \<Longrightarrow> ?thesis" by (simp add: stuck_def)
next
  case (GetUserMediaRejected i)
  then show "stuck s \<Longrightarrow> ?thesis" by (simp add: stuck_def)
next
  case (DataAvailable r d)
  then show "stuck s \<Longrightarrow> ?thesis" by (auto simp: stuck_def list_all_length)
next
  case (StopEvent r readerThrows)
  then show "stuck s \<Longrightarrow> ?thesis" by (auto simp: stuck_def list_all_length)
next
  case (LoadEnd i result)
  then show "stuck s \<Longrightarrow> ?thesis" by (simp add: stuck_def)
next
  case (GenerateResolved i responseText now date api)
  then show "stuck s \<Longrightarrow> ?thesis" by (simp add: stuck_def)
next
  case (GenerateRejected i)
  then show "stuck s \<Longrightarrow> ?thesis" by (simp add: stuck_def)
next
  case (WriteTextResolved i)
  then show "stuck s \<Longrightarrow> ?thesis" by (simp add: stuck_def)
next
  case (WriteTextRejected i exec)
  then show "stuck s \<Longrightarrow> ?thesis" by (simp add: stuck_def)
next
  case (IntervalFired t)
  then show "stuck s \<Longrightarrow> ?thesis" by (simp add: stuck_def intervalFired_def)
next
  case TimeoutFired
  then show "stuck s \<Longrightarrow> ?thesis" by (simp add: stuck_def timeoutFired_def)
qed

lemma stuck_run: "stuck s \<Longrightarrow> stuck (run es s)"
  by (induction es arbitrary: s) (simp_all add: stuck_step)

lemma serviceRejected_stuck: "stuck (run serviceRejected init)"
  by (simp add: serviceRejected_def init_def handler_defs stuck_def)

text \<open>
  C2. The \<^verbatim>\<open>generateContent\<close> call of a recording rejects (the run \<open>serviceRejected\<close>).
  The rejection surfaces inside \<^verbatim>\<open>onloadend\<close>, which the \<^verbatim>\<open>try\<close> statement of
  \<^verbatim>\<open>processAudio\<close> does not enclose: lines 106 and 107 do not run, and whatever events
  \<open>es\<close> follow, \<^verbatim>\<open>isProcessing\<close> stays true and no error message is set.
\<close>

theorem service_rejection_never_idle:
  "isProcessing (run (serviceRejected @ es) init)
   \<and> error (run (serviceRejected @ es) init) = None"
  using stuck_run [OF serviceRejected_stuck, of es] by (simp add: run_append stuck_def)

text \<open>
  C3. A pending \<^verbatim>\<open>generateContent\<close> call resolves with a text \<open>T\<close> whose trimmed form is
  not empty: the history is the old one with one new entry in front, whose text is the
  trimmed \<open>T\<close>, and a copy of that text is attempted. Where the browser has a clipboard,
  \<^verbatim>\<open>writeText\<close> is called with it and the call is pending; where it has none, no call
  is made, the fallback runs \<^verbatim>\<open>execCommand('copy')\<close> on that text at once, and the page
  leaves the spinner.
\<close>

theorem transcription_prepended:
  assumes "i < length (pendingGenerate s)" and "trim T \<noteq> []"
  shows "transcriptions (step (GenerateResolved i (Some T) now date api) s)
           = \<lparr>t_id = toString now, t_text = trim T, t_timestamp = date\<rparr> # transcriptions s
         \<and> writeTextCalls (step (GenerateResolved i (Some T) now date HasClipboard) s)
           = writeTextCalls s @ [trim T]
         \<and> pendingWriteText (step (GenerateResolved i (Some T) now date HasClipboard) s)
           = pendingWriteText s @ [(trim T, toString now, True)]
         \<and> execCopyCalls (step (GenerateResolved i (Some T) now date (NoClipboard exec)) s)
           = execCopyCalls s @ [trim T]
         \<and> writeTextCalls (step (GenerateResolved i (Some T) now date (NoClipboard exec)) s)
           = writeTextCalls s
         \<and> \<not> isProcessing (step (GenerateResolved i (Some T) now date (NoClipboard exec)) s)"
proof -
  have kept: "transcriptions (writeText_rejected copied entryId fromProcessAudio ex st)
                = transcriptions st" for copied entryId fromProcessAudio ex st
    by (cases ex) (simp_all add: writeText_rejected_def Let_def)
  have fallback: "execCopyCalls (writeText_rejected copied entryId True exec st)
                    = execCopyCalls st @ [copied]
                  \<and> writeTextCalls (writeText_rejected copied entryId True exec st)
                    = writeTextCalls st
                  \<and> \<not> isProcessing (writeText_rejected copied entryId True exec st)"
    for copied entryId st
    by (cases exec) (simp_all add: writeText_rejected_def Let_def)
  show ?thesis
    using assms
    by (cases api) (simp_all add: onloadend_resolved_def Let_def kept fallback)
qed

theorem transcription_prepended_witness:
  "0 < length (pendingGenerate
         (onloadend (ascii ''data:audio/webm;base64,AQ=='') [] [] init))
   \<and> trim (ascii '' Hi '') \<noteq> []
   \<and> transcriptions (step (GenerateResolved 0 (Some (ascii '' Hi '')) 1000 1001 HasClipboard)
        (onloadend (ascii ''data:audio/webm;base64,AQ=='') [] [] init))
      = [\<lparr>t_id = ascii ''1000'', t_text = ascii ''Hi'', t_timestamp = 1001\<rparr>]
   \<and> writeTextCalls (step (GenerateResolved 0 (Some (ascii '' Hi '')) 1000 1001 HasClipboard)
        (onloadend (ascii ''data:audio/webm;base64,AQ=='') [] [] init))
      = [ascii ''Hi'']
   \<and> execCopyCalls
        (step (GenerateResolved 0 (Some (ascii '' Hi '')) 1000 1001 (NoClipboard ExecThrows))
          (onloadend (ascii ''data:audio/webm;base64,AQ=='') [] [] init))
      = [ascii ''Hi'']"
  using transcription_prepended
    [of 0 "onloadend (ascii ''data:audio/webm;base64,AQ=='') [] [] init"
      "ascii '' Hi ''" 1000 1001 HasClipboard ExecThrows]
  by (simp add: onloadend_def Let_def init_def trim_def is_js_space_def ascii_def toString_def
      digits.simps digit_def)

section \<open>The ids of the entries\<close>

lemma unat_digit: "d < 10 \<Longrightarrow> unat (digit d) = 48 + d"
  unfolding digit_def by (simp only: unat_of_nat) simp

lemma digit_inj: "a < 10 \<Longrightarrow> b < 10 \<Longrightarrow> digit a = digit b \<Longrightarrow> a = b"
  using unat_digit by (metis add_left_cancel)

lemma digit_not_minus: "d < 10 \<Longrightarrow> digit d \<noteq> 0x2D"
  using unat_digit [of d] by auto

lemma digits_nonempty: "digits n \<noteq> []"
  by (subst digits.simps) simp

lemma hd_digits_not_minus: "hd (digits n) \<noteq> 0x2D"
proof (induction n rule: digits.induct)
  case (1 n)
  show ?case
  proof (cases "n < 10")
    case True
    then show ?thesis by (simp add: digits.simps [of n] digit_not_minus)
  next
    case False
    with 1 show ?thesis by (simp add: digits.simps [of n] digits_nonempty)
  qed
qed

lemma digits_inj: "digits n = digits m \<Longrightarrow> n = m"
proof (induction n arbitrary: m rule: digits.induct)
  case (1 n)
  show ?case
  proof (cases "n < 10")
    case small_n: True
    show ?thesis
    proof (cases "m < 10")
      case True
      with small_n "1.prems" show ?thesis
        by (simp add: digits.simps [of n] digits.simps [of m] digit_inj)
    next
      case False
      with small_n "1.prems" digits_nonempty [of "m div 10"] show ?thesis
        by (simp add: digits.simps [of n] digits.simps [of m])
    qed
  next
    case big_n: False
    show ?thesis
    proof (cases "m < 10")
      case True
      with big_n "1.prems" digits_nonempty [of "n div 10"] show ?thesis
        by (simp add: digits.simps [of n] digits.simps [of m])
    next
      case False
      with big_n "1.prems" have "digits (n div 10) = digits (m div 10)"
        and "digit (n mod 10) = digit (m mod 10)"
        by (simp_all add: digits.simps [of n] digits.simps [of m])
      with big_n "1.IH" have "n div 10 = m div 10" and "n mod 10 = m mod 10"
        by (auto intro: digit_inj)
      then show ?thesis by (metis div_mult_mod_eq)
    qed
  qed
qed

lemma toString_inj: "toString i = toString j \<Longrightarrow> i = j"
proof -
  assume eq: "toString i = toString j"
  have neg: "0x2D # digits a \<noteq> digits b" for a b
    using hd_digits_not_minus [of b] by (metis list.sel(1))
  show "i = j"
  proof (cases "i < 0")
    case True
    show ?thesis
    proof (cases "j < 0")
      case True
      with \<open>i < 0\<close> eq have "nat (- i) = nat (- j)"
        by (simp add: toString_def digits_inj)
      with True \<open>i < 0\<close> show ?thesis by simp
    next
      case False
      with \<open>i < 0\<close> eq neg show ?thesis by (simp add: toString_def)
    qed
  next
    case False
    show ?thesis
    proof (cases "j < 0")
      case True
      with False eq neg [of "nat (- j)" "nat i"] show ?thesis by (simp add: toString_def)
    next
      case nonneg_j: False
      with False eq have "nat i = nat j"
        by (simp add: toString_def digits_inj)
      with False nonneg_j show ?thesis by simp
    qed
  qed
qed

lemma toString_image_inj: "toString now \<in> toString ` U \<Longrightarrow> now \<in> U"
  using toString_inj by auto

lemma stopRecording_transcriptions: "transcriptions (stopRecording s) = transcriptions s"
  by (simp add: stopRecording_def Let_def split: option.splits)

lemma writeText_rejected_transcriptions:
  "transcriptions (writeText_rejected txt entryId fromProcessAudio exec s) = transcriptions s"
  by (cases exec) (simp_all add: writeText_rejected_def Let_def)

lemma step_ids:
  "map t_id (transcriptions (step e s)) = map t_id (transcriptions s)
   \<or> (\<exists>now. clockOf e = [now]
        \<and> map t_id (transcriptions (step e s)) = toString now # map t_id (transcriptions s))"
proof (cases e)
  case (KeyDown targetIsInput codeIsSpace)
  then show ?thesis
    by (simp add: handleKeyDown_def startRecording_def stopRecording_transcriptions)
next
  case ButtonClick
  then show ?thesis
    by (simp add: buttonClick_def startRecording_def stopRecording_transcriptions)
next
  case (SelectLanguage lang)
  then show ?thesis by (simp add: selectLanguage_def)
next
  case (CopyClick k api)
  then show ?thesis
    by (simp add: copyClick_def writeText_rejected_transcriptions split: clipboard_api.splits)
next
  case (GetUserMediaResolved i mime)
  then show ?thesis by (simp add: startRecording_granted_def)
next
  case (GetUserMediaRejected i)
  then show ?thesis by (simp add: startRecording_denied_def)
next
  case (DataAvailable r d)
  then show ?thesis by (simp add: ondataavailable_def)
next
  case (StopEvent r readerThrows)
  then show ?thesis by (simp add: onstop_def processAudio_def Let_def)
next
  case (LoadEnd i result)
  then show ?thesis
    by (simp add: onloadend_def onloadend_rejected_def Let_def split: prod.splits option.splits)
next
  case (GenerateResolved i responseText now date api)
  then show ?thesis
    by (simp add: onloadend_resolved_def Let_def writeText_rejected_transcriptions
        split: clipboard_api.splits)
next
  case (GenerateRejected i)
  then show ?thesis by (simp add: onloadend_rejected_def)
next
  case (WriteTextResolved i)
  then show ?thesis by (simp add: writeText_resolved_def Let_def split: prod.splits)
next
  case (WriteTextRejected i exec)
  then show ?thesis by (simp add: writeText_rejected_transcriptions split: prod.splits)
next
  case (IntervalFired t)
  then show ?thesis by (simp add: intervalFired_def)
next
  case TimeoutFired
  then show ?thesis by (simp add: timeoutFired_def)
qed

lemma run_ids_distinct:
  "distinct (map t_id (transcriptions s)) \<Longrightarrow>
   set (map t_id (transcriptions s)) \<subseteq> toString ` U \<Longrightarrow>
   distinct (clockReadings es) \<Longrightarrow>
   set (clockReadings es) \<inter> U = {} \<Longrightarrow>
   distinct (map t_id (transcriptions (run es s)))"
proof (induction es arbitrary: s U)
  case Nil
  then show ?case by simp
next
  case (Cons e es)
  have rest: "distinct (clockReadings es)" and restU: "set (clockReadings es) \<inter> U = {}"
    using Cons.prems(3,4) by (auto simp: clockReadings_def)
  from step_ids [of e s] show ?case
  proof (elim disjE exE conjE)
    assume same: "map t_id (transcriptions (step e s)) = map t_id (transcriptions s)"
    have "distinct (map t_id (transcriptions (run es (step e s))))"
      by (rule Cons.IH [of "step e s" U]) (use same Cons.prems(1,2) rest restU in simp_all)
    then show ?thesis by simp
  next
    fix now
    assume clk: "clockOf e = [now]"
      and new: "map t_id (transcriptions (step e s)) = toString now # map t_id (transcriptions s)"
    have readings: "clockReadings (e # es) = now # clockReadings es"
      using clk by (simp add: clockReadings_def)
    from Cons.prems(3) have later: "now \<notin> set (clockReadings es)"
      unfolding readings by simp
    from Cons.prems(4) have fresh: "now \<notin> U"
      unfolding readings by simp
    have unused: "toString now \<notin> set (map t_id (transcriptions s))"
    proof
      assume "toString now \<in> set (map t_id (transcriptions s))"
      with Cons.prems(2) have "toString now \<in> toString ` U" by (rule subsetD)
      then have "now \<in> U" by (rule toString_image_inj)
      with fresh show False by contradiction
    qed
    have d: "distinct (map t_id (transcriptions (step e s)))"
      unfolding new using unused Cons.prems(1) by (simp only: distinct.simps simp_thms)
    have "toString ` U \<subseteq> toString ` insert now U"
      by (rule image_mono) (rule subset_insertI)
    with Cons.prems(2)
    have "set (map t_id (transcriptions s)) \<subseteq> toString ` insert now U"
      by (rule subset_trans)
    then have sub: "set (map t_id (transcriptions (step e s))) \<subseteq> toString ` insert now U"
      unfolding new by (simp only: list.set insert_subset image_insert insertI1 simp_thms)
    from restU later have disj: "set (clockReadings es) \<inter> insert now U = {}"
      by (simp only: Int_insert_right if_False)
    have "distinct (map t_id (transcriptions (run es (step e s))))"
      by (rule Cons.IH [OF d sub rest disj])
    then show ?thesis by simp
  qed
qed

lemma twoSessions_history:
  "transcriptions (run (twoSessions now1 now2) init)
     = [\<lparr>t_id = toString now2, t_text = ascii ''b'', t_timestamp = now2\<rparr>,
        \<lparr>t_id = toString now1, t_text = ascii ''a'', t_timestamp = now1\<rparr>]"
  by (simp add: twoSessions_def init_def handler_defs cleanMimeType_def trim_def
      is_js_space_def ascii_def)

text \<open>
  C6, as the code has it. An entry's id is the decimal text of \<^verbatim>\<open>Date.now()\<close> at its
  creation (line 72). When the clock reads the same value at the creation of two
  entries, the history holds two different entries with one id.
\<close>

theorem same_clock_reading_same_id:
  "distinct (transcriptions (run (twoSessions 1700000000000 1700000000000) init))
   \<and> \<not> distinct (map t_id (transcriptions (run (twoSessions 1700000000000 1700000000000) init)))"
  by (simp add: twoSessions_history ascii_def)

text \<open>
  C6, amended. In every run from the mounted component in which the clock readings that
  come with the resolutions of the service are pairwise distinct, the ids of the entries
  of the history are pairwise distinct.
\<close>

theorem ids_distinct_when_clock_readings_distinct:
  "distinct (clockReadings es) \<Longrightarrow> distinct (map t_id (transcriptions (run es init)))"
  using run_ids_distinct [of init "{}" es] by (simp add: init_def)

theorem ids_distinct_when_clock_readings_distinct_witness:
  "distinct (clockReadings (twoSessions 1700000000000 1700000060000))
   \<and> distinct (map t_id (transcriptions (run (twoSessions 1700000000000 1700000060000) init)))
   \<and> length (transcriptions (run (twoSessions 1700000000000 1700000060000) init)) = 2"
  using ids_distinct_when_clock_readings_distinct [of "twoSessions 1700000000000 1700000060000"]
  by (simp add: twoSessions_history) (simp add: clockReadings_def twoSessions_def)

end
